theory Spec2Isabelle
  imports Main "HOL-Library.Sublist"
begin

section \<open>The info server of main.py\<close>

text \<open>
  The program is one FastAPI module with two handlers: \<^verbatim>\<open>home\<close> (GET /) and
  \<^verbatim>\<open>health\<close> (GET /api/health). Everything the handlers read from outside (the host
  name and the output of the two metadata commands) is a field of an environment
  record, every exception is a value of a sum type, and the local variables of
  \<^verbatim>\<open>home\<close> are a record that is passed through the try statement.
\<close>

subsection \<open>Python strings\<close>

text \<open>
  A Python \<^verbatim>\<open>str\<close> is a sequence of Unicode code points, here a list of naturals.
  \<open>ustr\<close> reads an ASCII literal as such a list.
\<close>

type_synonym pystr = "nat list"

definition ustr :: "string \<Rightarrow> pystr" where
  "ustr s = map of_char s"

datatype exn =
    IndexError
  | ValueError
  | UnboundLocalError
  | OSError
  | UnicodeDecodeError
  | KeyboardInterrupt

text \<open>
  \<^verbatim>\<open>s.split(sep)\<close>: the pieces of \<open>s\<close> between the occurrences of \<open>sep\<close>, found from
  the left and not overlapping; \<open>cur\<close> collects the piece being read. An empty
  separator raises ValueError.
\<close>

function split_from :: "'a list \<Rightarrow> 'a list \<Rightarrow> 'a list \<Rightarrow> 'a list list" where
  "split_from sep cur [] = [cur]"
| "split_from sep cur (x # xs) =
     (if sep \<noteq> [] \<and> prefix sep (x # xs)
      then cur # split_from sep [] (drop (length sep) (x # xs))
      else split_from sep (cur @ [x]) xs)"
  by pat_completeness auto
termination
  by (relation "measure (\<lambda>(sep, cur, s). length s)") auto

definition str_split :: "'a list \<Rightarrow> 'a list \<Rightarrow> exn + 'a list list" where
  "str_split s sep = (if sep = [] then Inl ValueError else Inr (split_from sep [] s))"

text \<open>
  \<^verbatim>\<open>xs[i]\<close>: a negative index counts from the end, an index out of range raises
  IndexError.
\<close>

definition getitem :: "'a list \<Rightarrow> int \<Rightarrow> exn + 'a" where
  "getitem xs i =
     (if 0 \<le> i \<and> i < int (length xs) then Inr (xs ! nat i)
      else if i < 0 \<and> - int (length xs) \<le> i then Inr (xs ! nat (int (length xs) + i))
      else Inl IndexError)"

text \<open>
  \<^verbatim>\<open>s.strip()\<close> removes the white space at both ends; white space is what
  \<^verbatim>\<open>str.isspace\<close> accepts: U+0009 to U+000D, U+001C to U+0020, U+0085, U+00A0,
  U+1680, U+2000 to U+200A, U+2028, U+2029, U+202F, U+205F and U+3000.
\<close>

definition str_isspace :: "nat \<Rightarrow> bool" where
  "str_isspace c =
     ((0x9 \<le> c \<and> c \<le> 0xD) \<or> (0x1C \<le> c \<and> c \<le> 0x20) \<or> c = 0x85 \<or> c = 0xA0
      \<or> c = 0x1680 \<or> (0x2000 \<le> c \<and> c \<le> 0x200A) \<or> c = 0x2028 \<or> c = 0x2029
      \<or> c = 0x202F \<or> c = 0x205F \<or> c = 0x3000)"

definition str_strip :: "pystr \<Rightarrow> pystr" where
  "str_strip s = rev (dropWhile str_isspace (rev (dropWhile str_isspace s)))"

subsection \<open>The environment of a request\<close>

text \<open>
  \<open>gethostname\<close> is what \<^verbatim>\<open>socket.gethostname()\<close> returns. \<open>popen_read\<close> is
  \<^verbatim>\<open>os.popen(cmd).read()\<close>: the text the command writes to its standard output
  (empty when the command is not found, since its standard error goes to /dev/null),
  or the exception that starting the process or decoding its output raises. The exit
  status of the command is not part of the environment: the source never reads it.
\<close>

record env =
  gethostname :: pystr
  popen_read :: "pystr \<Rightarrow> exn + pystr"

definition cmd_instance_id :: pystr where
  "cmd_instance_id = ustr ''ec2-metadata --instance-id 2>/dev/null''"

definition cmd_availability_zone :: pystr where
  "cmd_availability_zone = ustr ''ec2-metadata --availability-zone 2>/dev/null''"

definition sep :: pystr where
  "sep = ustr '': ''"

definition sentinel :: pystr where
  "sentinel = ustr ''N/A (not on EC2)''"

subsection \<open>The handler of GET /\<close>

text \<open>
  Lines 15 and 16 evaluate the same expression on two commands:
  \<^verbatim>\<open>os.popen(cmd).read().split(': ')[1].strip()\<close>.
\<close>

definition read_field :: "env \<Rightarrow> pystr \<Rightarrow> exn + pystr" where
  "read_field e cmd =
     (case popen_read e cmd of
        Inl x \<Rightarrow> Inl x
      | Inr out \<Rightarrow>
          (case str_split out sep of
             Inl x \<Rightarrow> Inl x
           | Inr parts \<Rightarrow>
               (case getitem parts 1 of
                  Inl x \<Rightarrow> Inl x
                | Inr v \<Rightarrow> Inr (str_strip v))))"

text \<open>
  The local variables of \<^verbatim>\<open>home\<close>; \<open>None\<close> is a variable not yet assigned.
\<close>

record locals =
  hostname :: pystr
  instance_id :: "pystr option"
  availability_zone :: "pystr option"

text \<open>
  The body of the try statement (lines 15 and 16). An exception leaves the block with
  the variables as they are at that moment: \<open>Inl (x, l)\<close>.
\<close>

definition try_body :: "env \<Rightarrow> locals \<Rightarrow> exn \<times> locals + locals" where
  "try_body e l =
     (case read_field e cmd_instance_id of
        Inl x \<Rightarrow> Inl (x, l)
      | Inr v \<Rightarrow>
          (case read_field e cmd_availability_zone of
             Inl x \<Rightarrow> Inl (x, l\<lparr>instance_id := Some v\<rparr>)
           | Inr w \<Rightarrow> Inr (l\<lparr>instance_id := Some v, availability_zone := Some w\<rparr>)))"

text \<open>The bare \<^verbatim>\<open>except:\<close> clause (lines 17 to 19) catches every exception.\<close>

definition except_clause :: "locals \<Rightarrow> locals" where
  "except_clause l = l\<lparr>instance_id := Some sentinel, availability_zone := Some sentinel\<rparr>"

definition try_except :: "env \<Rightarrow> locals \<Rightarrow> locals" where
  "try_except e l =
     (case try_body e l of
        Inr l' \<Rightarrow> l'
      | Inl (x, l') \<Rightarrow> except_clause l')"

text \<open>
  The f-string of lines 21 to 90: the literal text, with \<^verbatim>\<open>{{\<close> and \<^verbatim>\<open>}}\<close> read as
  braces, and the three fields, each between \<^verbatim>\<open><code>\<close> and \<^verbatim>\<open></code>\<close>.
\<close>

definition page_head :: pystr where \<comment> \<open>lines 21 to 76, up to the hostname field\<close>
  \<open>page_head = ustr ''
    <!DOCTYPE html>
    <html>
    <head>
        <title>Terraform + Docker Web Server</title>
        <style>
            body {
                font-family: Arial, sans-serif;
                max-width: 800px;
                margin: 50px auto;
                padding: 20px;
                background: linear-gradient(135deg, #667eea 0%, #764ba2 100%);
                color: white;
            }
            .container {
                background: rgba(255, 255, 255, 0.1);
                padding: 30px;
                border-radius: 10px;
                backdrop-filter: blur(10px);
            }
            h1 {
                margin-top: 0;
            }
            .info {
                background: rgba(0, 0, 0, 0.2);
                padding: 15px;
                border-radius: 5px;
                margin: 10px 0;
            }
            code {
                background: rgba(0, 0, 0, 0.3);
                padding: 2px 6px;
                border-radius: 3px;
            }
            .badge {
                display: inline-block;
                padding: 5px 10px;
                border-radius: 5px;
                margin: 5px 5px 5px 0;
            }
            .terraform-badge {
                background: #7B42BC;
            }
            .docker-badge {
                background: #2496ED;
            }
        </style>
    </head>
    <body>
        <div class="container">
            <h1>'' @ [0x1F680] @ ustr '' Hello from Terraform + Docker!</h1>
            <p>This containerized application is running on infrastructure provisioned entirely through code.</p>

            <div class="info">
                <h3>Instance Information:</h3>
                <p><strong>Container Hostname:</strong> ''\<close>

definition page_mid1 :: pystr where \<comment> \<open>lines 76 to 77, between the hostname and the instance id\<close>
  \<open>page_mid1 = ustr ''</p>
                <p><strong>Instance ID:</strong> ''\<close>

definition page_mid2 :: pystr where \<comment> \<open>lines 77 to 78, between the instance id and the availability zone\<close>
  \<open>page_mid2 = ustr ''</p>
                <p><strong>Availability Zone:</strong> ''\<close>

definition page_tail :: pystr where \<comment> \<open>lines 78 to 90, after the availability zone\<close>
  \<open>page_tail = ustr ''</p>
            </div>

            <div>
                <span class="badge terraform-badge">'' @ [0x26A1] @ ustr '' Provisioned with Terraform</span>
                <span class="badge docker-badge">'' @ [0x1F433] @ ustr '' Running in Docker</span>
            </div>

            <p>This entire infrastructure - ECR repository, EC2 instance, security group, and container orchestration - was created from declarative configuration files. No clicking required!</p>
        </div>
    </body>
    </html>
    ''\<close>

definition code_elem :: "pystr \<Rightarrow> pystr" where
  "code_elem v = ustr ''<code>'' @ v @ ustr ''</code>''"

definition html_page :: "pystr \<Rightarrow> pystr \<Rightarrow> pystr \<Rightarrow> pystr" where
  "html_page h i a =
     page_head @ code_elem h @ page_mid1 @ code_elem i @ page_mid2 @ code_elem a @ page_tail"

text \<open>Formatting reads the three variables; reading an unassigned one raises.\<close>

definition render :: "locals \<Rightarrow> exn + pystr" where
  "render l =
     (case instance_id l of
        None \<Rightarrow> Inl UnboundLocalError
      | Some i \<Rightarrow>
          (case availability_zone l of
             None \<Rightarrow> Inl UnboundLocalError
           | Some a \<Rightarrow> Inr (html_page (hostname l) i a)))"

definition home_locals :: "env \<Rightarrow> locals" where \<comment> \<open>the variables after line 19\<close>
  "home_locals e =
     try_except e \<lparr>hostname = gethostname e, instance_id = None, availability_zone = None\<rparr>"

definition home :: "env \<Rightarrow> exn + pystr" where
  "home e = render (home_locals e)"

subsection \<open>The handler of GET /api/health\<close>

text \<open>The dictionary of lines 95 to 99, as the list of its items in order.\<close>

definition health :: "env \<Rightarrow> exn + (pystr \<times> pystr) list" where
  "health e =
     Inr [(ustr ''status'', ustr ''healthy''),
          (ustr ''service'', ustr ''terraform-docker-web-server''),
          (ustr ''hostname'', gethostname e)]"

subsection \<open>The application\<close>

text \<open>
  The decorators of lines 9 and 93 register the two handlers. FastAPI passes the value a
  handler returns to the response class (HTMLResponse for \<^verbatim>\<open>home\<close>, JSONResponse for the
  dictionary of \<^verbatim>\<open>health\<close>), which encodes it as UTF-8, and answers with status 200. A
  handler that raises, and a body that cannot be encoded, are answered with status 500.

  UTF-8 encodes every code point but the surrogates U+D800 to U+DFFF. A Python string can
  hold one: \<^verbatim>\<open>socket.gethostname()\<close> decodes the bytes of the host name with the
  surrogateescape handler, so the byte 0xFF of a host name is read as U+DCFF. The content
  of a response is kept here as the text, or the items of the object, of which the body is
  the encoding.
\<close>

definition utf8_encodable :: "pystr \<Rightarrow> bool" where
  "utf8_encodable s = list_all (\<lambda>c. c < 0xD800 \<or> (0xDFFF < c \<and> c < 0x110000)) s"

datatype request = GET_root | GET_api_health

datatype content =
    HTMLResponse pystr
  | JSONResponse "(pystr \<times> pystr) list"
  | Internal_Server_Error

record response =
  status_code :: nat
  content :: content

definition app :: "env \<Rightarrow> request \<Rightarrow> response" where
  "app e r =
     (case r of
        GET_root \<Rightarrow>
          (case home e of
             Inr html \<Rightarrow>
               if utf8_encodable html
               then \<lparr>status_code = 200, content = HTMLResponse html\<rparr>
               else \<lparr>status_code = 500, content = Internal_Server_Error\<rparr>
           | Inl x \<Rightarrow> \<lparr>status_code = 500, content = Internal_Server_Error\<rparr>)
      | GET_api_health \<Rightarrow>
          (case health e of
             Inr d \<Rightarrow>
               if list_all (\<lambda>(k, v). utf8_encodable k \<and> utf8_encodable v) d
               then \<lparr>status_code = 200, content = JSONResponse d\<rparr>
               else \<lparr>status_code = 500, content = Internal_Server_Error\<rparr>
           | Inl x \<Rightarrow> \<lparr>status_code = 500, content = Internal_Server_Error\<rparr>))"

subsection \<open>When a query counts as failed, and the environments of the examples\<close>

text \<open>
  A query fails when \<^verbatim>\<open>os.popen(cmd).read()\<close> raises, or when its output does not
  contain the separator \<^verbatim>\<open>': '\<close> (the empty output of a missing command is such an
  output).
\<close>

definition query_fails :: "env \<Rightarrow> pystr \<Rightarrow> bool" where
  "query_fails e cmd =
     (case popen_read e cmd of
        Inl x \<Rightarrow> True
      | Inr out \<Rightarrow> \<not> sublist sep out)"

text \<open>The output of a command, when there is one, can be encoded as UTF-8.\<close>

definition output_encodable :: "env \<Rightarrow> pystr \<Rightarrow> bool" where
  "output_encodable e cmd =
     (case popen_read e cmd of
        Inl x \<Rightarrow> True
      | Inr out \<Rightarrow> utf8_encodable out)"

text \<open>On an EC2 instance: each command prints one line.\<close>

definition scenario_ec2 :: env where
  "scenario_ec2 =
     \<lparr>gethostname = ustr ''ip-10-0-1-23'',
      popen_read = (\<lambda>cmd.
        if cmd = cmd_instance_id then Inr (ustr ''instance-id: i-0123456789abcdef0\<newline>'')
        else if cmd = cmd_availability_zone then Inr (ustr ''availability-zone: us-east-1a\<newline>'')
        else Inr [])\<rparr>"

text \<open>Off EC2: the command is not found, the shell prints nothing to standard output.\<close>

definition scenario_no_command :: env where
  "scenario_no_command = \<lparr>gethostname = ustr ''laptop'', popen_read = (\<lambda>cmd. Inr [])\<rparr>"

text \<open>The same host, where every other command cannot even be started.\<close>

definition scenario_no_command' :: env where
  "scenario_no_command' =
     \<lparr>gethostname = ustr ''laptop'',
      popen_read = (\<lambda>cmd.
        if cmd = cmd_instance_id \<or> cmd = cmd_availability_zone then Inr [] else Inl OSError)\<rparr>"

text \<open>The first query answers, the second cannot be started.\<close>

definition scenario_second_fails :: env where
  "scenario_second_fails =
     \<lparr>gethostname = ustr ''ip-10-0-1-23'',
      popen_read = (\<lambda>cmd.
        if cmd = cmd_instance_id then Inr (ustr ''instance-id: i-0123456789abcdef0\<newline>'')
        else Inl OSError)\<rparr>"

text \<open>A command that prints two lines for either query.\<close>

definition scenario_two_lines :: env where
  "scenario_two_lines =
     \<lparr>gethostname = ustr ''ip-10-0-1-23'',
      popen_read = (\<lambda>cmd.
        Inr (ustr ''instance-id: i-0123456789abcdef0\<newline>availability-zone: us-east-1a\<newline>''))\<rparr>"


text \<open>
  A host whose name is the two bytes 0x68 0xFF, which \<^verbatim>\<open>socket.gethostname()\<close> returns
  as the code points U+0068 U+DCFF; the command is not found.
\<close>

definition scenario_surrogate_host :: env where
  "scenario_surrogate_host = \<lparr>gethostname = [0x68, 0xDCFF], popen_read = (\<lambda>cmd. Inr [])\<rparr>"

section \<open>Properties of the string operations\<close>

text \<open>
  Splitting always gives a piece; a text without the separator is one piece, a text
  with it gives at least two; and the first piece ends at the first separator.
\<close>

lemma split_from_nonempty: "split_from s0 cur s \<noteq> []"
  by (induction s0 cur s rule: split_from.induct) auto

lemma split_from_no_sep: "\<not> sublist s0 s \<Longrightarrow> split_from s0 cur s = [cur @ s]"
proof (induction s arbitrary: cur)
  case Nil
  show ?case by simp
next
  case (Cons x xs)
  from Cons.prems have np: "\<not> prefix s0 (x # xs)" and ns: "\<not> sublist s0 xs"
    by (simp_all add: sublist_Cons_right)
  from Cons.IH [OF ns] np show ?case by simp
qed

lemma split_from_has_sep:
  "s0 \<noteq> [] \<Longrightarrow> sublist s0 s \<Longrightarrow> 2 \<le> length (split_from s0 cur s)"
proof (induction s arbitrary: cur)
  case Nil
  then show ?case by simp
next
  case (Cons x xs)
  show ?case
  proof (cases "prefix s0 (x # xs)")
    case True
    have "1 \<le> length (split_from s0 [] (drop (length s0) (x # xs)))"
      using split_from_nonempty [of s0 "[]" "drop (length s0) (x # xs)"]
      by (cases "split_from s0 [] (drop (length s0) (x # xs))") simp_all
    with True Cons.prems(1) show ?thesis by simp
  next
    case False
    with Cons.prems(2) have "sublist s0 xs" by (simp add: sublist_Cons_right)
    from Cons.IH [OF Cons.prems(1) this] False show ?thesis by simp
  qed
qed

lemma sep_eq: "sep = [58, 32]"
  by (simp add: sep_def ustr_def)

lemma split_from_first_sep:
  "\<not> sublist sep k \<Longrightarrow> split_from sep cur (k @ sep @ rest) = (cur @ k) # split_from sep [] rest"
proof (induction k arbitrary: cur)
  case Nil
  show ?case by (simp add: sep_eq)
next
  case (Cons x xs)
  from Cons.prems have ns: "\<not> sublist sep xs" and np: "\<not> prefix sep (x # xs)"
    by (simp_all add: sublist_Cons_right)
  have "\<not> prefix sep (x # xs @ sep @ rest)"
  proof (cases xs)
    case Nil
    then show ?thesis by (simp add: sep_eq)
  next
    case (Cons y ys)
    with np show ?thesis by (simp add: sep_eq)
  qed
  with Cons.IH [OF ns, of "cur @ [x]"] show ?case by simp
qed

lemma split_from_key_value:
  assumes k: "\<not> sublist sep k" and v: "\<not> sublist sep v" and t: "t = [] \<or> prefix sep t"
  shows "\<exists>more. split_from sep [] (k @ sep @ v @ t) = k # v # more"
proof -
  have first: "split_from sep [] (k @ sep @ v @ t) = k # split_from sep [] (v @ t)"
    using split_from_first_sep [OF k, of "[]" "v @ t"] by simp
  from t show ?thesis
  proof
    assume "t = []"
    with first split_from_no_sep [OF v, of "[]"] show ?thesis by simp
  next
    assume "prefix sep t"
    then obtain t' where "t = sep @ t'" by (auto simp: prefix_def)
    with first split_from_first_sep [OF v, of "[]" t'] show ?thesis by simp
  qed
qed

text \<open>
  Stripping removes exactly the white space around a text that neither starts nor ends
  with white space.
\<close>

lemma str_strip_exact:
  assumes a: "\<forall>c \<in> set a. str_isspace c" and b: "\<forall>c \<in> set b. str_isspace c"
    and v: "v = [] \<or> (\<not> str_isspace (hd v) \<and> \<not> str_isspace (last v))"
  shows "str_strip (a @ v @ b) = v"
proof (cases "v = []")
  case True
  from b have "dropWhile str_isspace b = []" by simp
  with a have d: "dropWhile str_isspace (a @ b) = []" by (simp add: dropWhile_append2)
  show ?thesis
    by (simp only: str_strip_def True append_Nil d rev.simps dropWhile.simps)
next
  case False
  with v have h: "\<not> str_isspace (hd v)" and l: "\<not> str_isspace (last v)" by simp_all
  from False h have "dropWhile str_isspace v = v" by (cases v) simp_all
  with False h have "dropWhile str_isspace (v @ b) = v @ b"
    by (simp add: dropWhile_append1 [of "hd v"])
  with a have lead: "dropWhile str_isspace (a @ v @ b) = v @ b"
    by (simp add: dropWhile_append2)
  from False l have trail: "dropWhile str_isspace (rev v) = rev v"
    by (cases "rev v") (simp_all add: last_rev [symmetric] del: last_rev)
  from b have "dropWhile str_isspace (rev b @ rev v) = dropWhile str_isspace (rev v)"
    by (intro dropWhile_append2) simp
  then show ?thesis
    by (simp only: str_strip_def lead trail rev_append rev_rev_ident)
qed

section \<open>Properties of the parts of the handlers\<close>

text \<open>
  What the expression of lines 15 and 16 gives: the exception of the command, IndexError
  when the output has no separator, and otherwise the stripped text between the first
  separator and the next one (or the end of the output).
\<close>

lemma read_field_raise: "popen_read e c = Inl x \<Longrightarrow> read_field e c = Inl x"
  by (simp add: read_field_def)

lemma read_field_no_sep:
  assumes "popen_read e c = Inr out" and "\<not> sublist sep out"
  shows "read_field e c = Inl IndexError"
  using assms split_from_no_sep [of sep out "[]"]
  by (simp add: read_field_def str_split_def getitem_def sep_eq)

lemma read_field_value:
  assumes out: "popen_read e c = Inr (k @ sep @ v @ t)"
    and k: "\<not> sublist sep k" and v: "\<not> sublist sep v" and t: "t = [] \<or> prefix sep t"
  shows "read_field e c = Inr (str_strip v)"
proof -
  from split_from_key_value [OF k v t] obtain more
    where "split_from sep [] (k @ sep @ v @ t) = k # v # more" ..
  with out show ?thesis
    by (simp add: read_field_def str_split_def getitem_def sep_eq)
qed

lemma read_field_has_sep:
  assumes out: "popen_read e c = Inr out" and s: "sublist sep out"
  shows "\<exists>v. read_field e c = Inr v"
proof -
  have "2 \<le> length (split_from sep [] out)"
    using split_from_has_sep [of sep out "[]"] s by (simp add: sep_eq)
  with out show ?thesis
    by (simp add: read_field_def str_split_def getitem_def sep_eq)
qed

lemma read_field_fails: "query_fails e c \<Longrightarrow> \<exists>x. read_field e c = Inl x"
  by (auto simp: query_fails_def split: sum.splits
      intro: read_field_raise read_field_no_sep)

lemma read_field_succeeds: "\<not> query_fails e c \<Longrightarrow> \<exists>v. read_field e c = Inr v"
  by (auto simp: query_fails_def split: sum.splits intro: read_field_has_sep)

lemma read_field_exact:
  assumes out: "popen_read e c = Inr (k @ sep @ a @ v @ b)"
    and k: "\<not> sublist sep k" and avb: "\<not> sublist sep (a @ v @ b)"
    and a: "\<forall>c \<in> set a. str_isspace c" and b: "\<forall>c \<in> set b. str_isspace c"
    and v: "v = [] \<or> (\<not> str_isspace (hd v) \<and> \<not> str_isspace (last v))"
  shows "read_field e c = Inr v"
  using read_field_value [of e c k "a @ v @ b" "[]"] out k avb str_strip_exact [OF a b v]
  by simp

text \<open>The try statement, the formatting and the responses.\<close>

lemma try_body_raises:
  "query_fails e cmd_instance_id \<or> query_fails e cmd_availability_zone \<Longrightarrow>
   \<exists>x l'. try_body e l = Inl (x, l')"
  by (auto simp: try_body_def split: sum.splits dest: read_field_fails)

lemma try_except_raised:
  "try_body e l = Inl (x, l') \<Longrightarrow>
   instance_id (try_except e l) = Some sentinel \<and> availability_zone (try_except e l) = Some sentinel"
  by (simp add: try_except_def except_clause_def)

lemma render_bound:
  "instance_id l = Some i \<Longrightarrow> availability_zone l = Some a \<Longrightarrow>
   render l = Inr (html_page (hostname l) i a)"
  by (simp add: render_def)

lemma hostname_try_except: "hostname (try_except e l) = hostname l"
  by (simp add: try_except_def try_body_def except_clause_def split: sum.splits)

lemma hostname_home_locals: "hostname (home_locals e) = gethostname e"
  by (simp add: home_locals_def hostname_try_except)

lemma home_locals_bound:
  "\<exists>i a. instance_id (home_locals e) = Some i \<and> availability_zone (home_locals e) = Some a"
  by (simp add: home_locals_def try_except_def try_body_def except_clause_def split: sum.splits)

lemma home_locals_read:
  "read_field e cmd_instance_id = Inr v \<Longrightarrow> read_field e cmd_availability_zone = Inr w \<Longrightarrow>
   instance_id (home_locals e) = Some v \<and> availability_zone (home_locals e) = Some w"
  by (simp add: home_locals_def try_except_def try_body_def)

lemma home_of_locals:
  "instance_id (home_locals e) = Some i \<Longrightarrow> availability_zone (home_locals e) = Some a \<Longrightarrow>
   home e = Inr (html_page (gethostname e) i a)"
  using render_bound [of "home_locals e" i a] by (simp add: home_def hostname_home_locals)

lemma home_page:
  "\<exists>i a. instance_id (home_locals e) = Some i \<and> availability_zone (home_locals e) = Some a \<and>
     home e = Inr (html_page (gethostname e) i a)"
proof -
  from home_locals_bound [of e] obtain i a
    where ia: "instance_id (home_locals e) = Some i" "availability_zone (home_locals e) = Some a"
    by blast
  from render_bound [OF ia] have "home e = Inr (html_page (gethostname e) i a)"
    by (simp add: home_def hostname_home_locals)
  with ia show ?thesis by blast
qed

lemma home_failed:
  assumes "query_fails e cmd_instance_id \<or> query_fails e cmd_availability_zone"
  shows "instance_id (home_locals e) = Some sentinel \<and> availability_zone (home_locals e) = Some sentinel"
proof -
  from try_body_raises [OF assms] obtain x l'
    where "try_body e \<lparr>hostname = gethostname e, instance_id = None, availability_zone = None\<rparr> = Inl (x, l')"
    by blast
  from try_except_raised [OF this] show ?thesis by (simp add: home_locals_def)
qed

lemma page_has_hostname: "sublist (code_elem h) (html_page h i a)"
  unfolding html_page_def sublist_def
  by (rule exI [of _ "page_head"], rule exI [of _ "page_mid1 @ code_elem i @ page_mid2 @ code_elem a @ page_tail"]) simp

lemma page_has_instance_id: "sublist (code_elem i) (html_page h i a)"
  unfolding html_page_def sublist_def
  by (rule exI [of _ "page_head @ code_elem h @ page_mid1"], rule exI [of _ "page_mid2 @ code_elem a @ page_tail"]) simp

lemma page_has_availability_zone: "sublist (code_elem a) (html_page h i a)"
  unfolding html_page_def sublist_def
  by (rule exI [of _ "page_head @ code_elem h @ page_mid1 @ code_elem i @ page_mid2"], rule exI [of _ "page_tail"]) simp

text \<open>
  Encoding: the template and every literal can be encoded, and so can whatever the
  handler cuts out of an output that can be encoded.
\<close>

lemma encodable_append: "utf8_encodable (a @ b) = (utf8_encodable a \<and> utf8_encodable b)"
  by (simp add: utf8_encodable_def)

lemma encodable_Cons:
  "utf8_encodable (c # s) = ((c < 0xD800 \<or> (0xDFFF < c \<and> c < 0x110000)) \<and> utf8_encodable s)"
  by (simp add: utf8_encodable_def)

lemma encodable_ustr: "utf8_encodable (ustr s)"
proof -
  have "of_char c < (0xD800 :: nat)" for c :: char
    by (rule less_trans [OF nat_of_char_less_256]) simp
  then show ?thesis by (simp add: utf8_encodable_def ustr_def list_all_iff)
qed

lemma encodable_subset: "set v \<subseteq> set s \<Longrightarrow> utf8_encodable s \<Longrightarrow> utf8_encodable v"
  by (auto simp: utf8_encodable_def list_all_iff)

lemma encodable_template:
  "utf8_encodable page_head" "utf8_encodable page_mid1"
  "utf8_encodable page_mid2" "utf8_encodable page_tail"
  by (simp_all add: page_head_def page_mid1_def page_mid2_def page_tail_def
      encodable_append encodable_Cons encodable_ustr)

lemma encodable_html_page:
  "utf8_encodable (html_page h i a) = (utf8_encodable h \<and> utf8_encodable i \<and> utf8_encodable a)"
  by (simp add: html_page_def code_elem_def encodable_append encodable_ustr encodable_template)

lemma encodable_sentinel: "utf8_encodable sentinel"
  by (simp add: sentinel_def encodable_ustr)

lemma split_from_pieces:
  "p \<in> set (split_from s0 cur s) \<Longrightarrow> set p \<subseteq> set cur \<union> set s"
proof (induction s0 cur s arbitrary: p rule: split_from.induct)
  case (1 s0 cur)
  then show ?case by simp
next
  case (2 s0 cur x xs)
  show ?case
  proof (cases "s0 \<noteq> [] \<and> prefix s0 (x # xs)")
    case True
    with "2.prems" have "p = cur \<or> p \<in> set (split_from s0 [] (drop (length s0) (x # xs)))"
      by simp
    then show ?thesis
    proof
      assume "p = cur"
      then show ?thesis by auto
    next
      assume "p \<in> set (split_from s0 [] (drop (length s0) (x # xs)))"
      from "2.IH"(1) [OF True this] have "set p \<subseteq> set (drop (length s0) (x # xs))" by simp
      with set_drop_subset [of "length s0" "x # xs"] show ?thesis by auto
    qed
  next
    case False
    with "2.prems" have "p \<in> set (split_from s0 (cur @ [x]) xs)" by auto
    from "2.IH"(2) [OF False this] show ?thesis by auto
  qed
qed

lemma str_strip_subset: "set (str_strip s) \<subseteq> set s"
proof -
  have "set (dropWhile str_isspace (rev (dropWhile str_isspace s))) \<subseteq>
      set (rev (dropWhile str_isspace s))"
    by (auto dest: set_dropWhileD)
  also have "\<dots> \<subseteq> set s" by (auto dest: set_dropWhileD)
  finally show ?thesis by (simp add: str_strip_def)
qed

lemma read_field_subset:
  assumes "read_field e c = Inr v"
  shows "\<exists>out. popen_read e c = Inr out \<and> set v \<subseteq> set out"
proof (cases "popen_read e c")
  case (Inl x)
  with assms show ?thesis by (simp add: read_field_def)
next
  case (Inr out)
  with assms obtain p where p: "getitem (split_from sep [] out) 1 = Inr p" and v: "v = str_strip p"
    by (auto simp: read_field_def str_split_def sep_eq split: sum.splits)
  from p have "p \<in> set (split_from sep [] out)"
    by (auto simp: getitem_def split: if_splits)
  from split_from_pieces [OF this] have "set p \<subseteq> set out" by simp
  with v str_strip_subset [of p] Inr show ?thesis by auto
qed

lemma read_field_encodable:
  "read_field e c = Inr v \<Longrightarrow> output_encodable e c \<Longrightarrow> utf8_encodable v"
  by (auto simp: output_encodable_def dest!: read_field_subset intro: encodable_subset)

lemma home_locals_encodable:
  assumes "output_encodable e cmd_instance_id" and "output_encodable e cmd_availability_zone"
    and "instance_id (home_locals e) = Some i" and "availability_zone (home_locals e) = Some a"
  shows "utf8_encodable i \<and> utf8_encodable a"
  using assms
  by (auto simp: home_locals_def try_except_def try_body_def except_clause_def encodable_sentinel
      split: sum.splits dest: read_field_encodable)

lemma surrogate_not_encodable: "\<not> utf8_encodable [0x68, 0xDCFF]"
  by (simp add: utf8_encodable_def)

text \<open>The responses.\<close>

lemma app_root:
  "home e = Inr page \<Longrightarrow> utf8_encodable page \<Longrightarrow>
   app e GET_root = \<lparr>status_code = 200, content = HTMLResponse page\<rparr>"
  by (simp add: app_def)

lemma health_items:
  "health e =
     Inr [(ustr ''status'', ustr ''healthy''),
          (ustr ''service'', ustr ''terraform-docker-web-server''),
          (ustr ''hostname'', gethostname e)]"
  by (simp add: health_def)

lemma app_health:
  "utf8_encodable (gethostname e) \<Longrightarrow>
   app e GET_api_health =
     \<lparr>status_code = 200,
      content = JSONResponse [(ustr ''status'', ustr ''healthy''),
        (ustr ''service'', ustr ''terraform-docker-web-server''),
        (ustr ''hostname'', gethostname e)]\<rparr>"
  by (simp add: app_def health_def encodable_ustr)

lemma page_spelled_out:
  "html_page h i a =
     page_head @ ustr ''<code>'' @ h @ ustr ''</code>'' @
     page_mid1 @ ustr ''<code>'' @ i @ ustr ''</code>'' @
     page_mid2 @ ustr ''<code>'' @ a @ ustr ''</code>'' @ page_tail"
  by (simp add: html_page_def code_elem_def)

section \<open>The claims\<close>

text \<open>
  Claim C1, as stated: every request to GET / is answered with status 200 and the
  rendered page. This fails on a host whose name cannot be encoded as UTF-8: the handler
  returns the page, the response class cannot encode it, and the answer is 500.
\<close>

theorem surrogate_host_name_root_is_500_counterexample:
  "gethostname scenario_surrogate_host = [0x68, 0xDCFF] \<and>
   home scenario_surrogate_host = Inr (html_page [0x68, 0xDCFF] sentinel sentinel) \<and>
   app scenario_surrogate_host GET_root =
     \<lparr>status_code = 500, content = Internal_Server_Error\<rparr>"
proof -
  have h: "gethostname scenario_surrogate_host = [0x68, 0xDCFF]"
    by (simp add: scenario_surrogate_host_def)
  have "query_fails scenario_surrogate_host cmd_instance_id"
    by (simp add: query_fails_def scenario_surrogate_host_def sep_eq)
  then have "instance_id (home_locals scenario_surrogate_host) = Some sentinel \<and>
      availability_zone (home_locals scenario_surrogate_host) = Some sentinel"
    by (intro home_failed) simp
  then have p: "home scenario_surrogate_host = Inr (html_page [0x68, 0xDCFF] sentinel sentinel)"
    using home_of_locals [of scenario_surrogate_host sentinel sentinel] by (simp add: h)
  then have "app scenario_surrogate_host GET_root =
      \<lparr>status_code = 500, content = Internal_Server_Error\<rparr>"
    by (simp add: app_def encodable_html_page surrogate_not_encodable)
  with h p show ?thesis by simp
qed

text \<open>
  Claim C1, amended. Whatever the metadata commands do (raise, print nothing, print
  anything), the handler of GET / raises nothing and returns the page: a failure of a
  metadata query is absorbed by the except clause. When the host name and the outputs of
  the two commands can be encoded as UTF-8, the request is answered with status 200 and
  that page. The handler reads the host name and waits for each command's output; both
  are taken to arrive.
\<close>

theorem home_returns_and_200_when_encodable:
  "(\<exists>i a. home e = Inr (html_page (gethostname e) i a)) \<and>
   (utf8_encodable (gethostname e) \<and> output_encodable e cmd_instance_id \<and>
    output_encodable e cmd_availability_zone \<longrightarrow>
      (\<exists>i a. home e = Inr (html_page (gethostname e) i a) \<and>
         app e GET_root =
           \<lparr>status_code = 200, content = HTMLResponse (html_page (gethostname e) i a)\<rparr>))"
proof -
  from home_page [of e] obtain i a
    where ia: "instance_id (home_locals e) = Some i" "availability_zone (home_locals e) = Some a"
      and p: "home e = Inr (html_page (gethostname e) i a)"
    by blast
  have "app e GET_root =
      \<lparr>status_code = 200, content = HTMLResponse (html_page (gethostname e) i a)\<rparr>"
    if "utf8_encodable (gethostname e)" and "output_encodable e cmd_instance_id"
      and "output_encodable e cmd_availability_zone"
  proof -
    from home_locals_encodable [OF that(2,3) ia] that(1)
    have "utf8_encodable (html_page (gethostname e) i a)"
      by (simp add: encodable_html_page)
    with p show ?thesis by (rule app_root)
  qed
  with p show ?thesis by blast
qed

theorem home_returns_and_200_when_encodable_witness:
  "query_fails scenario_no_command cmd_instance_id \<and>
   utf8_encodable (gethostname scenario_no_command) \<and>
   (\<exists>i a. home scenario_no_command = Inr (html_page (ustr ''laptop'') i a) \<and>
      app scenario_no_command GET_root =
        \<lparr>status_code = 200, content = HTMLResponse (html_page (ustr ''laptop'') i a)\<rparr>)"
proof -
  have f: "query_fails scenario_no_command cmd_instance_id"
    by (simp add: query_fails_def scenario_no_command_def sep_eq)
  have h: "gethostname scenario_no_command = ustr ''laptop''"
    by (simp add: scenario_no_command_def)
  have u: "utf8_encodable (gethostname scenario_no_command)"
    by (simp add: h encodable_ustr)
  have o: "output_encodable scenario_no_command c" for c
    by (simp add: output_encodable_def scenario_no_command_def utf8_encodable_def)
  from home_returns_and_200_when_encodable [of scenario_no_command] u o f show ?thesis
    by (simp add: h)
qed

text \<open>
  Claim C2, as stated: every request to GET /api/health is answered with status 200
  and the JSON object. This fails on a host whose name cannot be encoded as UTF-8: the
  handler returns the dictionary, the response class cannot encode it, and the answer is
  500.
\<close>

theorem surrogate_host_name_health_is_500_counterexample:
  "health scenario_surrogate_host =
     Inr [(ustr ''status'', ustr ''healthy''),
          (ustr ''service'', ustr ''terraform-docker-web-server''),
          (ustr ''hostname'', [0x68, 0xDCFF])] \<and>
   app scenario_surrogate_host GET_api_health =
     \<lparr>status_code = 500, content = Internal_Server_Error\<rparr>"
  by (simp add: app_def health_def scenario_surrogate_host_def encodable_ustr
      surrogate_not_encodable)

text \<open>
  Claim C2, amended. The handler of GET /api/health always returns a dictionary whose
  keys are exactly status, service and hostname, with status equal to
  \<^verbatim>\<open>healthy\<close>; when the host name can be encoded as UTF-8, the request is answered
  with status 200 and that object.
\<close>

theorem health_keys_and_200_when_encodable:
  "(\<exists>d. health e = Inr d \<and>
      map fst d = [ustr ''status'', ustr ''service'', ustr ''hostname''] \<and>
      distinct (map fst d) \<and>
      map_of d (ustr ''status'') = Some (ustr ''healthy'')) \<and>
   (utf8_encodable (gethostname e) \<longrightarrow>
      (\<exists>d. app e GET_api_health = \<lparr>status_code = 200, content = JSONResponse d\<rparr> \<and>
         map fst d = [ustr ''status'', ustr ''service'', ustr ''hostname''] \<and>
         distinct (map fst d) \<and>
         map_of d (ustr ''status'') = Some (ustr ''healthy'')))"
proof -
  let ?d = "[(ustr ''status'', ustr ''healthy''),
        (ustr ''service'', ustr ''terraform-docker-web-server''),
        (ustr ''hostname'', gethostname e)]"
  have k: "map fst ?d = [ustr ''status'', ustr ''service'', ustr ''hostname'']"
    by simp
  have d: "distinct (map fst ?d)"
    by (simp add: ustr_def)
  have s: "map_of ?d (ustr ''status'') = Some (ustr ''healthy'')"
    by simp
  have "\<exists>d. health e = Inr d \<and>
      map fst d = [ustr ''status'', ustr ''service'', ustr ''hostname''] \<and>
      distinct (map fst d) \<and>
      map_of d (ustr ''status'') = Some (ustr ''healthy'')"
    using health_items [of e] k d s by (intro exI [of _ ?d] conjI)
  moreover have "\<exists>d. app e GET_api_health = \<lparr>status_code = 200, content = JSONResponse d\<rparr> \<and>
         map fst d = [ustr ''status'', ustr ''service'', ustr ''hostname''] \<and>
         distinct (map fst d) \<and>
         map_of d (ustr ''status'') = Some (ustr ''healthy'')"
    if "utf8_encodable (gethostname e)"
    using app_health [OF that] k d s by (intro exI [of _ ?d] conjI)
  ultimately show ?thesis by (intro conjI impI)
qed

theorem health_keys_and_200_when_encodable_witness:
  "utf8_encodable (gethostname scenario_ec2) \<and>
   (\<exists>d. app scenario_ec2 GET_api_health = \<lparr>status_code = 200, content = JSONResponse d\<rparr> \<and>
      map fst d = [ustr ''status'', ustr ''service'', ustr ''hostname''] \<and>
      distinct (map fst d) \<and>
      map_of d (ustr ''status'') = Some (ustr ''healthy''))"
proof -
  have u: "utf8_encodable (gethostname scenario_ec2)"
    by (simp add: scenario_ec2_def encodable_ustr)
  from health_keys_and_200_when_encodable [of scenario_ec2, THEN conjunct2, THEN mp, OF u] u
  show ?thesis by (intro conjI)
qed




text \<open>
  Claim C4. When each of the two queries prints a well-formed \<^verbatim>\<open>key: value\<close> line
  (a key, the separator \<^verbatim>\<open>': '\<close> and a value, the separator occurring once), the try
  block ends without an exception and the page holds the parsed values, the text after
  \<^verbatim>\<open>key: \<close> with the white space around it stripped, each inside its
  \<^verbatim>\<open><code>\<close> element. The instance that follows is the scenario of the specification:
  \<^verbatim>\<open>instance-id: i-0123456789abcdef0\<close> and \<^verbatim>\<open>availability-zone: us-east-1a\<close>.
\<close>

theorem well_formed_lines_are_rendered:
  assumes "popen_read e cmd_instance_id = Inr (k1 @ sep @ v1)"
    and "popen_read e cmd_availability_zone = Inr (k2 @ sep @ v2)"
    and "\<not> sublist sep k1" and "\<not> sublist sep v1"
    and "\<not> sublist sep k2" and "\<not> sublist sep v2"
  shows "try_body e l =
       Inr (l\<lparr>instance_id := Some (str_strip v1), availability_zone := Some (str_strip v2)\<rparr>) \<and>
     instance_id (home_locals e) = Some (str_strip v1) \<and>
     availability_zone (home_locals e) = Some (str_strip v2) \<and>
     home e = Inr (html_page (gethostname e) (str_strip v1) (str_strip v2)) \<and>
     sublist (ustr ''<code>'' @ str_strip v1 @ ustr ''</code>'')
       (html_page (gethostname e) (str_strip v1) (str_strip v2)) \<and>
     sublist (ustr ''<code>'' @ str_strip v2 @ ustr ''</code>'')
       (html_page (gethostname e) (str_strip v1) (str_strip v2))"
proof -
  have r1: "read_field e cmd_instance_id = Inr (str_strip v1)"
    using read_field_value [of e cmd_instance_id k1 v1 "[]"] assms by simp
  have r2: "read_field e cmd_availability_zone = Inr (str_strip v2)"
    using read_field_value [of e cmd_availability_zone k2 v2 "[]"] assms by simp
  have body: "try_body e l =
      Inr (l\<lparr>instance_id := Some (str_strip v1), availability_zone := Some (str_strip v2)\<rparr>)"
    for l
    by (simp add: try_body_def r1 r2)
  have l1: "instance_id (home_locals e) = Some (str_strip v1)"
    and l2: "availability_zone (home_locals e) = Some (str_strip v2)"
    by (simp_all add: home_locals_def try_except_def body)
  from home_of_locals [OF l1 l2] body l1 l2
    page_has_instance_id [of "str_strip v1" "gethostname e" "str_strip v2"]
    page_has_availability_zone [of "str_strip v2" "gethostname e" "str_strip v1"]
  show ?thesis by (simp add: code_elem_def)
qed

theorem well_formed_lines_are_rendered_witness:
  "popen_read scenario_ec2 cmd_instance_id = Inr (ustr ''instance-id: i-0123456789abcdef0\<newline>'') \<and>
   popen_read scenario_ec2 cmd_availability_zone = Inr (ustr ''availability-zone: us-east-1a\<newline>'') \<and>
   home scenario_ec2 =
     Inr (html_page (ustr ''ip-10-0-1-23'') (ustr ''i-0123456789abcdef0'') (ustr ''us-east-1a'')) \<and>
   sublist (ustr ''<code>i-0123456789abcdef0</code>'')
     (html_page (ustr ''ip-10-0-1-23'') (ustr ''i-0123456789abcdef0'') (ustr ''us-east-1a'')) \<and>
   sublist (ustr ''<code>us-east-1a</code>'')
     (html_page (ustr ''ip-10-0-1-23'') (ustr ''i-0123456789abcdef0'') (ustr ''us-east-1a''))"
proof -
  have p1: "popen_read scenario_ec2 cmd_instance_id =
      Inr (ustr ''instance-id'' @ sep @ ustr ''i-0123456789abcdef0\<newline>'')"
    by (simp add: scenario_ec2_def sep_def ustr_def)
  have p2: "popen_read scenario_ec2 cmd_availability_zone =
      Inr (ustr ''availability-zone'' @ sep @ ustr ''us-east-1a\<newline>'')"
    by (simp add: scenario_ec2_def sep_def ustr_def cmd_instance_id_def cmd_availability_zone_def)
  have n: "\<not> sublist sep (ustr ''instance-id'')"
    "\<not> sublist sep (ustr ''i-0123456789abcdef0\<newline>'')"
    "\<not> sublist sep (ustr ''availability-zone'')"
    "\<not> sublist sep (ustr ''us-east-1a\<newline>'')"
    by (simp_all add: sep_def ustr_def sublist_Cons_right)
  have h: "gethostname scenario_ec2 = ustr ''ip-10-0-1-23''"
    by (simp add: scenario_ec2_def)
  from well_formed_lines_are_rendered [OF p1 p2 n] p1 p2 show ?thesis
    by (simp add: h sep_def ustr_def str_strip_def str_isspace_def)
qed

text \<open>
  Claim C5, as stated: every output that is not of the shape \<^verbatim>\<open>key: value\<close> gives
  the sentinel, and no malformed output has a part of it rendered. This fails: a command
  that prints two lines, \<^verbatim>\<open>instance-id: i-0123456789abcdef0\<close> and
  \<^verbatim>\<open>availability-zone: us-east-1a\<close>, gives as instance id
  the text between the first two separators (the first value, a line break and the second
  key), and not the sentinel.
\<close>

theorem malformed_output_is_rendered_counterexample:
  "popen_read scenario_two_lines cmd_instance_id =
     Inr (ustr ''instance-id: i-0123456789abcdef0\<newline>availability-zone: us-east-1a\<newline>'') \<and>
   instance_id (home_locals scenario_two_lines) =
     Some (ustr ''i-0123456789abcdef0\<newline>availability-zone'') \<and>
   ustr ''i-0123456789abcdef0\<newline>availability-zone'' \<noteq> sentinel \<and>
   home scenario_two_lines =
     Inr (html_page (ustr ''ip-10-0-1-23'') (ustr ''i-0123456789abcdef0\<newline>availability-zone'')
       (ustr ''i-0123456789abcdef0\<newline>availability-zone''))"
proof -
  have r: "read_field scenario_two_lines c = Inr (ustr ''i-0123456789abcdef0\<newline>availability-zone'')"
    for c
    by (simp add: read_field_def scenario_two_lines_def str_split_def getitem_def sep_def
        str_strip_def str_isspace_def ustr_def)
  have l: "instance_id (home_locals scenario_two_lines) =
      Some (ustr ''i-0123456789abcdef0\<newline>availability-zone'')"
    "availability_zone (home_locals scenario_two_lines) =
      Some (ustr ''i-0123456789abcdef0\<newline>availability-zone'')"
    using home_locals_read [OF r r] by simp_all
  have h: "gethostname scenario_two_lines = ustr ''ip-10-0-1-23''"
    by (simp add: scenario_two_lines_def)
  have n: "ustr ''i-0123456789abcdef0\<newline>availability-zone'' \<noteq> sentinel"
    by (simp add: sentinel_def ustr_def)
  have p: "popen_read scenario_two_lines cmd_instance_id =
     Inr (ustr ''instance-id: i-0123456789abcdef0\<newline>availability-zone: us-east-1a\<newline>'')"
    by (simp add: scenario_two_lines_def)
  from home_of_locals [OF l] l(1) n p show ?thesis by (simp only: h simp_thms)
qed

text \<open>
  Claim C5, amended. A query is unavailable exactly when its command raises or its output
  has no separator \<^verbatim>\<open>': '\<close> (the empty output included); then both fields are the
  sentinel. An output with a separator is never unavailable: the field is the text between
  the first separator and the next one (or the end of the output), stripped, whether or not
  the output is one well-formed line, and when both queries have one the page shows the two
  texts.
\<close>

theorem only_a_missing_separator_is_unavailable:
  "(query_fails e c \<longrightarrow> (\<exists>x. read_field e c = Inl x)) \<and>
   (\<not> query_fails e c \<longrightarrow> (\<exists>v. read_field e c = Inr v)) \<and>
   (popen_read e c = Inr (k @ sep @ v @ t) \<and> \<not> sublist sep k \<and> \<not> sublist sep v \<and>
      (t = [] \<or> prefix sep t) \<longrightarrow> read_field e c = Inr (str_strip v)) \<and>
   (query_fails e cmd_instance_id \<or> query_fails e cmd_availability_zone \<longrightarrow>
      instance_id (home_locals e) = Some sentinel \<and>
      availability_zone (home_locals e) = Some sentinel) \<and>
   (\<not> query_fails e cmd_instance_id \<and> \<not> query_fails e cmd_availability_zone \<longrightarrow>
      (\<exists>i a. read_field e cmd_instance_id = Inr i \<and> read_field e cmd_availability_zone = Inr a \<and>
         instance_id (home_locals e) = Some i \<and> availability_zone (home_locals e) = Some a))"
proof -
  have "\<exists>i a. read_field e cmd_instance_id = Inr i \<and> read_field e cmd_availability_zone = Inr a \<and>
      instance_id (home_locals e) = Some i \<and> availability_zone (home_locals e) = Some a"
    if "\<not> query_fails e cmd_instance_id" and "\<not> query_fails e cmd_availability_zone"
  proof -
    from that read_field_succeeds obtain i a
      where r: "read_field e cmd_instance_id = Inr i" "read_field e cmd_availability_zone = Inr a"
      by blast
    with home_locals_read [OF r] show ?thesis by blast
  qed
  with read_field_fails [of e c] read_field_succeeds [of e c]
    read_field_value [of e c k v t] home_failed [of e]
  show ?thesis by blast
qed

theorem only_a_missing_separator_is_unavailable_witness:
  "query_fails scenario_no_command cmd_instance_id \<and>
   (\<exists>x. read_field scenario_no_command cmd_instance_id = Inl x) \<and>
   instance_id (home_locals scenario_no_command) = Some sentinel \<and>
   availability_zone (home_locals scenario_no_command) = Some sentinel \<and>
   \<not> query_fails scenario_two_lines cmd_instance_id \<and>
   \<not> query_fails scenario_two_lines cmd_availability_zone \<and>
   read_field scenario_two_lines cmd_instance_id =
     Inr (str_strip (ustr ''i-0123456789abcdef0\<newline>availability-zone'')) \<and>
   (\<exists>i a. read_field scenario_two_lines cmd_instance_id = Inr i \<and>
      read_field scenario_two_lines cmd_availability_zone = Inr a \<and>
      instance_id (home_locals scenario_two_lines) = Some i \<and>
      availability_zone (home_locals scenario_two_lines) = Some a)"
proof -
  have f: "query_fails scenario_no_command cmd_instance_id"
    by (simp add: query_fails_def scenario_no_command_def sep_eq)
  have g: "\<not> query_fails scenario_two_lines c" for c
    by (simp add: query_fails_def scenario_two_lines_def sep_def ustr_def sublist_Cons_right)
  have p: "popen_read scenario_two_lines cmd_instance_id =
      Inr (ustr ''instance-id'' @ sep @ ustr ''i-0123456789abcdef0\<newline>availability-zone'' @
        sep @ ustr ''us-east-1a\<newline>'')"
    by (simp add: scenario_two_lines_def sep_def ustr_def)
  have n: "\<not> sublist sep (ustr ''instance-id'')"
    "\<not> sublist sep (ustr ''i-0123456789abcdef0\<newline>availability-zone'')"
    by (simp_all add: sep_def ustr_def sublist_Cons_right)
  from only_a_missing_separator_is_unavailable
      [of scenario_no_command cmd_instance_id "[]" "[]" "[]"] f
  have a: "(\<exists>x. read_field scenario_no_command cmd_instance_id = Inl x) \<and>
      instance_id (home_locals scenario_no_command) = Some sentinel \<and>
      availability_zone (home_locals scenario_no_command) = Some sentinel"
    by blast
  from only_a_missing_separator_is_unavailable
      [of scenario_two_lines cmd_instance_id "ustr ''instance-id''"
        "ustr ''i-0123456789abcdef0\<newline>availability-zone''" "sep @ ustr ''us-east-1a\<newline>''"] p n
  have b: "read_field scenario_two_lines cmd_instance_id =
      Inr (str_strip (ustr ''i-0123456789abcdef0\<newline>availability-zone''))"
    by simp
  from only_a_missing_separator_is_unavailable
      [of scenario_two_lines cmd_instance_id "[]" "[]" "[]"] g
  have c: "\<exists>i a. read_field scenario_two_lines cmd_instance_id = Inr i \<and>
      read_field scenario_two_lines cmd_availability_zone = Inr a \<and>
      instance_id (home_locals scenario_two_lines) = Some i \<and>
      availability_zone (home_locals scenario_two_lines) = Some a"
    by blast
  from f g a b c show ?thesis by blast
qed

text \<open>
  Claim C6. In one environment, the host name that stands in the page of GET /,
  between \<^verbatim>\<open><code>\<close> and \<^verbatim>\<open></code>\<close> after the head of the template, is the value
  of the key hostname in the dictionary of GET /api/health. The page and the dictionary are
  what the two answers carry whenever they can be encoded.
\<close>

theorem same_hostname_on_both_routes:
  "\<exists>i a d page.
     page = page_head @ ustr ''<code>'' @ gethostname e @ ustr ''</code>'' @
       page_mid1 @ ustr ''<code>'' @ i @ ustr ''</code>'' @
       page_mid2 @ ustr ''<code>'' @ a @ ustr ''</code>'' @ page_tail \<and>
     home e = Inr page \<and>
     health e = Inr d \<and>
     map_of d (ustr ''hostname'') = Some (gethostname e) \<and>
     app e GET_root =
       (if utf8_encodable page then \<lparr>status_code = 200, content = HTMLResponse page\<rparr>
        else \<lparr>status_code = 500, content = Internal_Server_Error\<rparr>) \<and>
     app e GET_api_health =
       (if utf8_encodable (gethostname e) then \<lparr>status_code = 200, content = JSONResponse d\<rparr>
        else \<lparr>status_code = 500, content = Internal_Server_Error\<rparr>)"
proof -
  from home_page [of e] obtain i a where p: "home e = Inr (html_page (gethostname e) i a)"
    by blast
  let ?d = "[(ustr ''status'', ustr ''healthy''),
        (ustr ''service'', ustr ''terraform-docker-web-server''),
        (ustr ''hostname'', gethostname e)]"
  have m: "map_of ?d (ustr ''hostname'') = Some (gethostname e)"
    by (simp add: ustr_def)
  have r: "app e GET_root =
       (if utf8_encodable (html_page (gethostname e) i a)
        then \<lparr>status_code = 200, content = HTMLResponse (html_page (gethostname e) i a)\<rparr>
        else \<lparr>status_code = 500, content = Internal_Server_Error\<rparr>)"
    using p by (simp add: app_def)
  have j: "app e GET_api_health =
       (if utf8_encodable (gethostname e) then \<lparr>status_code = 200, content = JSONResponse ?d\<rparr>
        else \<lparr>status_code = 500, content = Internal_Server_Error\<rparr>)"
    by (simp add: app_def health_def encodable_ustr)
  from p m r j health_items [of e] page_spelled_out [of "gethostname e" i a]
  show ?thesis by (intro exI [of _ i] exI [of _ a] exI [of _ ?d] exI [of _ "html_page (gethostname e) i a"]) (simp only: simp_thms)
qed

text \<open>
  Claim C7. The handlers keep no state, and a response is a function of the host name
  and of the outputs of the two metadata commands only: two environments that agree on
  these three give the same response to the same request, whatever else differs between
  them.
\<close>

theorem response_depends_only_on_external_inputs:
  assumes "gethostname e1 = gethostname e2"
    and "popen_read e1 cmd_instance_id = popen_read e2 cmd_instance_id"
    and "popen_read e1 cmd_availability_zone = popen_read e2 cmd_availability_zone"
  shows "app e1 r = app e2 r"
proof -
  have "read_field e1 cmd_instance_id = read_field e2 cmd_instance_id"
    and "read_field e1 cmd_availability_zone = read_field e2 cmd_availability_zone"
    using assms by (simp_all add: read_field_def)
  then have "try_body e1 l = try_body e2 l" for l
    by (simp add: try_body_def cong: sum.case_cong)
  then have "home e1 = home e2"
    using assms(1) by (simp add: home_def home_locals_def try_except_def)
  moreover have "health e1 = health e2"
    using assms(1) by (simp add: health_def)
  ultimately show ?thesis by (cases r) (simp_all add: app_def)
qed

theorem response_depends_only_on_external_inputs_witness:
  "popen_read scenario_no_command (ustr ''date'') \<noteq> popen_read scenario_no_command' (ustr ''date'') \<and>
   app scenario_no_command GET_root = app scenario_no_command' GET_root \<and>
   app scenario_no_command GET_api_health = app scenario_no_command' GET_api_health"
proof -
  have h: "gethostname scenario_no_command = gethostname scenario_no_command'"
    by (simp add: scenario_no_command_def scenario_no_command'_def)
  have p: "popen_read scenario_no_command cmd_instance_id =
      popen_read scenario_no_command' cmd_instance_id"
    "popen_read scenario_no_command cmd_availability_zone =
      popen_read scenario_no_command' cmd_availability_zone"
    by (simp_all add: scenario_no_command_def scenario_no_command'_def)
  have d: "popen_read scenario_no_command (ustr ''date'') \<noteq>
      popen_read scenario_no_command' (ustr ''date'')"
    by (simp add: scenario_no_command_def scenario_no_command'_def cmd_instance_id_def
        cmd_availability_zone_def ustr_def)
  from response_depends_only_on_external_inputs [OF h p] d show ?thesis by simp
qed

text \<open>
  Claim C8. The page that the handler returns is the fixed text of the template with
  the host name, the instance id and the availability zone put in character for character,
  each between \<^verbatim>\<open><code>\<close> and \<^verbatim>\<open></code>\<close>; no character of a value is escaped
  or changed, whatever the value is. That page is the body of the answer whenever it can be
  encoded.
\<close>

theorem values_are_interpolated_verbatim:
  "\<exists>i a page.
     instance_id (home_locals e) = Some i \<and> availability_zone (home_locals e) = Some a \<and>
     page = page_head @ ustr ''<code>'' @ gethostname e @ ustr ''</code>'' @
       page_mid1 @ ustr ''<code>'' @ i @ ustr ''</code>'' @
       page_mid2 @ ustr ''<code>'' @ a @ ustr ''</code>'' @ page_tail \<and>
     home e = Inr page \<and>
     app e GET_root =
       (if utf8_encodable page then \<lparr>status_code = 200, content = HTMLResponse page\<rparr>
        else \<lparr>status_code = 500, content = Internal_Server_Error\<rparr>)"
proof -
  from home_page [of e] obtain i a
    where ia: "instance_id (home_locals e) = Some i" "availability_zone (home_locals e) = Some a"
      and p: "home e = Inr (html_page (gethostname e) i a)"
    by blast
  have r: "app e GET_root =
       (if utf8_encodable (html_page (gethostname e) i a)
        then \<lparr>status_code = 200, content = HTMLResponse (html_page (gethostname e) i a)\<rparr>
        else \<lparr>status_code = 500, content = Internal_Server_Error\<rparr>)"
    using p by (simp add: app_def)
  from ia p r page_spelled_out [of "gethostname e" i a]
  show ?thesis by (intro exI [of _ i] exI [of _ a] exI [of _ "html_page (gethostname e) i a"]) (simp only: simp_thms)
qed

text \<open>
  Claim C9. The sentinel is assigned to both fields at once. When the first query is
  parsed and the second raises, the try block is left with the instance id already
  assigned, and the except clause overwrites it together with the availability zone; when
  the first query raises, the second is not run. After the try statement the two fields
  are either the two values of a run that did not raise, or both the sentinel.
\<close>

theorem sentinel_assignment_is_atomic:
  "(read_field e cmd_instance_id = Inr v \<and> read_field e cmd_availability_zone = Inl x \<longrightarrow>
      try_body e l = Inl (x, l\<lparr>instance_id := Some v\<rparr>) \<and>
      try_except e l = l\<lparr>instance_id := Some sentinel, availability_zone := Some sentinel\<rparr>) \<and>
   (read_field e cmd_instance_id = Inl x \<longrightarrow>
      try_body e l = Inl (x, l) \<and>
      try_except e l = l\<lparr>instance_id := Some sentinel, availability_zone := Some sentinel\<rparr>) \<and>
   ((\<exists>v w. read_field e cmd_instance_id = Inr v \<and> read_field e cmd_availability_zone = Inr w \<and>
       instance_id (home_locals e) = Some v \<and> availability_zone (home_locals e) = Some w) \<or>
    (instance_id (home_locals e) = Some sentinel \<and>
     availability_zone (home_locals e) = Some sentinel))"
proof (intro conjI impI)
  assume "read_field e cmd_instance_id = Inr v \<and> read_field e cmd_availability_zone = Inl x"
  then show "try_body e l = Inl (x, l\<lparr>instance_id := Some v\<rparr>)"
    by (simp add: try_body_def)
  then show "try_except e l = l\<lparr>instance_id := Some sentinel, availability_zone := Some sentinel\<rparr>"
    by (simp add: try_except_def except_clause_def)
next
  assume "read_field e cmd_instance_id = Inl x"
  then show "try_body e l = Inl (x, l)"
    by (simp add: try_body_def)
  then show "try_except e l = l\<lparr>instance_id := Some sentinel, availability_zone := Some sentinel\<rparr>"
    by (simp add: try_except_def except_clause_def)
next
  show "(\<exists>v w. read_field e cmd_instance_id = Inr v \<and> read_field e cmd_availability_zone = Inr w \<and>
       instance_id (home_locals e) = Some v \<and> availability_zone (home_locals e) = Some w) \<or>
    (instance_id (home_locals e) = Some sentinel \<and>
     availability_zone (home_locals e) = Some sentinel)"
    by (simp add: home_locals_def try_except_def try_body_def except_clause_def split: sum.splits)
qed

theorem sentinel_assignment_is_atomic_witness:
  "read_field scenario_second_fails cmd_instance_id = Inr (ustr ''i-0123456789abcdef0'') \<and>
   read_field scenario_second_fails cmd_availability_zone = Inl OSError \<and>
   try_body scenario_second_fails
       \<lparr>hostname = ustr ''ip-10-0-1-23'', instance_id = None, availability_zone = None\<rparr> =
     Inl (OSError, \<lparr>hostname = ustr ''ip-10-0-1-23'',
       instance_id = Some (ustr ''i-0123456789abcdef0''), availability_zone = None\<rparr>) \<and>
   home_locals scenario_second_fails =
     \<lparr>hostname = ustr ''ip-10-0-1-23'', instance_id = Some sentinel,
      availability_zone = Some sentinel\<rparr> \<and>
   read_field scenario_no_command cmd_instance_id = Inl IndexError \<and>
   home_locals scenario_no_command =
     \<lparr>hostname = ustr ''laptop'', instance_id = Some sentinel, availability_zone = Some sentinel\<rparr>"
proof -
  have r1: "read_field scenario_second_fails cmd_instance_id = Inr (ustr ''i-0123456789abcdef0'')"
    by (simp add: read_field_def scenario_second_fails_def str_split_def getitem_def sep_def
        str_strip_def str_isspace_def ustr_def)
  have r2: "read_field scenario_second_fails cmd_availability_zone = Inl OSError"
    by (simp add: read_field_def scenario_second_fails_def cmd_instance_id_def
        cmd_availability_zone_def ustr_def)
  have r3: "read_field scenario_no_command cmd_instance_id = Inl IndexError"
    by (simp add: read_field_def scenario_no_command_def str_split_def getitem_def sep_eq)
  have h: "gethostname scenario_second_fails = ustr ''ip-10-0-1-23''"
    "gethostname scenario_no_command = ustr ''laptop''"
    by (simp_all add: scenario_second_fails_def scenario_no_command_def)
  from sentinel_assignment_is_atomic
      [of scenario_second_fails "ustr ''i-0123456789abcdef0''" OSError
        "\<lparr>hostname = ustr ''ip-10-0-1-23'', instance_id = None, availability_zone = None\<rparr>"]
    r1 r2
  have a: "try_body scenario_second_fails
       \<lparr>hostname = ustr ''ip-10-0-1-23'', instance_id = None, availability_zone = None\<rparr> =
     Inl (OSError, \<lparr>hostname = ustr ''ip-10-0-1-23'',
       instance_id = Some (ustr ''i-0123456789abcdef0''), availability_zone = None\<rparr>)"
    and b: "try_except scenario_second_fails
       \<lparr>hostname = ustr ''ip-10-0-1-23'', instance_id = None, availability_zone = None\<rparr> =
     \<lparr>hostname = ustr ''ip-10-0-1-23'', instance_id = Some sentinel,
      availability_zone = Some sentinel\<rparr>"
    by simp_all
  from sentinel_assignment_is_atomic
      [of scenario_no_command "[]" IndexError
        "\<lparr>hostname = ustr ''laptop'', instance_id = None, availability_zone = None\<rparr>"]
    r3
  have c: "try_except scenario_no_command
       \<lparr>hostname = ustr ''laptop'', instance_id = None, availability_zone = None\<rparr> =
     \<lparr>hostname = ustr ''laptop'', instance_id = Some sentinel, availability_zone = Some sentinel\<rparr>"
    by simp
  from r1 r2 r3 a b c show ?thesis by (simp add: home_locals_def h)
qed

text \<open>
  Claim C10. The value of the key service in the dictionary that the handler of
  GET /api/health returns is the literal \<^verbatim>\<open>terraform-docker-web-server\<close>, in every
  environment; that dictionary is the object of the answer whenever the host name can be
  encoded.
\<close>

theorem health_service_identifier:
  "\<exists>d. health e = Inr d \<and>
     map_of d (ustr ''service'') = Some (ustr ''terraform-docker-web-server'') \<and>
     app e GET_api_health =
       (if utf8_encodable (gethostname e) then \<lparr>status_code = 200, content = JSONResponse d\<rparr>
        else \<lparr>status_code = 500, content = Internal_Server_Error\<rparr>)"
  by (simp add: app_def health_def ustr_def encodable_Cons utf8_encodable_def)

end
